theory Spec2Isabelle
  imports Complex_Main "HOL-Library.Log_Nat" "HOL-Library.Multiset"
begin

section \<open>The values of the cart manager\<close>

text \<open>
  The cart manager of \<^verbatim>\<open>public/script.js\<close> is the object \<^verbatim>\<open>AppState\<close>: an array of
  line objects \<^verbatim>\<open>{id, name, price, quantity}\<close>, mirrored into \<^verbatim>\<open>localStorage\<close> under
  the key \<^verbatim>\<open>'cart'\<close>.

  JavaScript has one Number type, IEEE binary64. Two kinds of Number occur here.
  \<^item> Quantities are produced by \<^verbatim>\<open>quantity: 1\<close>, \<^verbatim>\<open>quantity += 1\<close>, \<^verbatim>\<open>Math.max(1, q)\<close> and
    \<^verbatim>\<open>parseInt\<close>: they are integral or \<^verbatim>\<open>NaN\<close>, and \<^verbatim>\<open>null\<close> once a \<^verbatim>\<open>NaN\<close> has gone
    through \<^verbatim>\<open>JSON.stringify\<close>. They are modelled with an \<^typ>\<open>int\<close> payload. Every
    operation that computes one rounds to the nearest binary64 (\<open>nearest_Number\<close>
    below), so \<^verbatim>\<open>quantity += 1\<close> is exact up to \<open>2^53\<close> and leaves \<open>2^53\<close> where it is.
  \<^item> Prices are fractional (\<^verbatim>\<open>99.99\<close>), and sums and products of them round at
    ordinary values. They are modelled as the rational a binary64 holds, with
    rounding to nearest, ties to even, at 53 bits written out (\<open>binary64\<close> below).
    The exponent is unbounded in the model: overflow to \<^verbatim>\<open>Infinity\<close>, subnormal
    numbers and the sign of zero are not modelled.
\<close>

datatype qty = Qty int | QNaN | QNull

datatype number = Num rat | NaN

text \<open>\<^verbatim>\<open>ToNumber\<close> on a quantity: \<^verbatim>\<open>null\<close> converts to \<open>0\<close>; \<open>None\<close> stands for \<^verbatim>\<open>NaN\<close>.\<close>

fun ToInteger :: "qty \<Rightarrow> int option" where
  "ToInteger (Qty n) = Some n"
| "ToInteger QNaN = None"
| "ToInteger QNull = Some 0"

fun ToNumber :: "qty \<Rightarrow> number" where
  "ToNumber (Qty n) = Num (of_int n)"
| "ToNumber QNaN = NaN"
| "ToNumber QNull = Num 0"

subsection \<open>Binary64 rounding\<close>

definition round_half_even :: "rat \<Rightarrow> int" where
  "round_half_even x =
     (let f = \<lfloor>x\<rfloor>; d = x - of_int f
      in if d < 1 / 2 then f else if 1 / 2 < d then f + 1 else if even f then f else f + 1)"

text \<open>For \<open>0 < x\<close>, \<open>binade x\<close> is the exponent \<open>e\<close> with \<open>2^e \<le> x < 2^(e+1)\<close>.\<close>

definition binade :: "rat \<Rightarrow> int" where
  "binade x =
     (if 1 \<le> x then int (floorlog 2 (nat \<lfloor>x\<rfloor>)) - 1
      else - int (floorlog 2 (nat (\<lceil>1 / x\<rceil> - 1))))"

definition binary64 :: "rat \<Rightarrow> rat" where
  "binary64 x =
     (if x = 0 then 0
      else let u = 2 powi (binade \<bar>x\<bar> - 52)
           in of_int (round_half_even (x / u)) * u)"

text \<open>
  The binary64 nearest to an integer; it is an integer again. It is the integer itself
  up to \<open>2^53\<close> in absolute value.
\<close>

definition nearest_Number :: "int \<Rightarrow> int" where
  "nearest_Number n = \<lfloor>binary64 (of_int n)\<rfloor>"

text \<open>
  The operator \<^verbatim>\<open>+\<close> and \<^verbatim>\<open>Math.max\<close> on quantities: \<^verbatim>\<open>NaN\<close> is absorbing, the sum is
  rounded, the maximum is one of its arguments.
\<close>

definition qty_plus :: "qty \<Rightarrow> qty \<Rightarrow> qty" where
  "qty_plus a b =
     (case (ToInteger a, ToInteger b) of
        (Some x, Some y) \<Rightarrow> Qty (nearest_Number (x + y))
      | _ \<Rightarrow> QNaN)"

definition Math_max :: "qty \<Rightarrow> qty \<Rightarrow> qty" where
  "Math_max a b =
     (case (ToInteger a, ToInteger b) of
        (Some x, Some y) \<Rightarrow> Qty (max x y)
      | _ \<Rightarrow> QNaN)"

text \<open>The operators \<^verbatim>\<open>+\<close> and \<^verbatim>\<open>*\<close> on Numbers.\<close>

fun num_add :: "number \<Rightarrow> number \<Rightarrow> number" where
  "num_add (Num a) (Num b) = Num (binary64 (a + b))"
| "num_add _ _ = NaN"

fun num_mul :: "number \<Rightarrow> number \<Rightarrow> number" where
  "num_mul (Num a) (Num b) = Num (binary64 (a * b))"
| "num_mul _ _ = NaN"

text \<open>The Number a decimal literal \<open>d / 10^k\<close> denotes, as in \<^verbatim>\<open>price: 99.99\<close>.\<close>

definition literal :: "int \<Rightarrow> nat \<Rightarrow> rat" where
  "literal d k = binary64 (of_int d / 10 ^ k)"

subsection \<open>Products and cart lines\<close>

text \<open>
  A product is \<^verbatim>\<open>{id, name, price}\<close>; a cart line is \<^verbatim>\<open>{...product, quantity}\<close>, a
  record extension. The property \<^verbatim>\<open>id\<close> is the field \<open>productId\<close>. Ids are integers:
  the catalog's are \<open>1..6\<close>, and they reach \<^verbatim>\<open>addToCart\<close> through \<^verbatim>\<open>data-id\<close> and
  \<^verbatim>\<open>parseInt\<close>.
\<close>

record product =
  productId :: int
  name :: string
  price :: rat

record cart_line = product +
  quantity :: qty

definition new_line :: "product \<Rightarrow> cart_line" where
  "new_line p = \<lparr>productId = productId p, name = name p, price = price p, quantity = Qty 1\<rparr>"

subsection \<open>JSON and the persistent store\<close>

text \<open>
  \<^verbatim>\<open>JSON.stringify\<close> and \<^verbatim>\<open>JSON.parse\<close> belong to the host. A string held by
  \<^verbatim>\<open>localStorage\<close> is represented by what \<^verbatim>\<open>JSON.parse\<close> makes of it: the value a JSON
  text denotes, or, for a string outside the JSON grammar (such as \<^verbatim>\<open>[{\<close>), the message
  of the \<^verbatim>\<open>SyntaxError\<close> the parser raises. What \<^verbatim>\<open>JSON.stringify\<close> loses is explicit:
  \<^verbatim>\<open>NaN\<close> is written as \<^verbatim>\<open>null\<close>.
\<close>

datatype json =
    JNull
  | JBool bool
  | JNumber rat
  | JString string
  | JArray "json list"
  | JObject "(string \<times> json) list"

datatype stored = JSONText json | Malformed string

datatype error = SyntaxError string | TypeError string | Error string

fun message :: "error \<Rightarrow> string" where
  "message (SyntaxError m) = m"
| "message (TypeError m) = m"
| "message (Error m) = m"

fun qty_json :: "qty \<Rightarrow> json" where
  "qty_json (Qty n) = JNumber (of_int n)"
| "qty_json QNaN = JNull"
| "qty_json QNull = JNull"

definition line_json :: "cart_line \<Rightarrow> json" where
  "line_json l =
     JObject [(''id'', JNumber (of_int (productId l))), (''name'', JString (name l)),
              (''price'', JNumber (price l)), (''quantity'', qty_json (quantity l))]"

definition cart_json :: "cart_line list \<Rightarrow> json" where
  "cart_json c = JArray (map line_json c)"

text \<open>\<^verbatim>\<open>JSON.stringify(this.cart)\<close>.\<close>

definition JSON_stringify :: "cart_line list \<Rightarrow> stored" where
  "JSON_stringify c = JSONText (cart_json c)"

text \<open>
  \<^verbatim>\<open>JSON.parse(x)\<close> for \<open>x\<close> the result of \<^verbatim>\<open>getItem\<close>: \<open>None\<close> is \<^verbatim>\<open>null\<close>, which
  \<^verbatim>\<open>JSON.parse\<close> converts to the string \<^verbatim>\<open>"null"\<close> and parses to \<^verbatim>\<open>null\<close>.
\<close>

fun JSON_parse :: "stored option \<Rightarrow> error + json" where
  "JSON_parse None = Inr JNull"
| "JSON_parse (Some (JSONText j)) = Inr j"
| "JSON_parse (Some (Malformed m)) = Inl (SyntaxError m)"

fun truthy :: "json \<Rightarrow> bool" where
  "truthy JNull = False"
| "truthy (JBool b) = b"
| "truthy (JNumber r) = (r \<noteq> 0)"
| "truthy (JString s) = (s \<noteq> [])"
| "truthy (JArray _) = True"
| "truthy (JObject _) = True"

text \<open>
  A parsed value seen as a typed cart: an array of objects with the four properties the
  program writes, in the order it writes them.
\<close>

fun qty_of_json :: "json \<Rightarrow> qty option" where
  "qty_of_json (JNumber r) = (if r = of_int \<lfloor>r\<rfloor> then Some (Qty \<lfloor>r\<rfloor>) else None)"
| "qty_of_json JNull = Some QNull"
| "qty_of_json _ = None"

fun line_of_json :: "json \<Rightarrow> cart_line option" where
  "line_of_json (JObject [(k1, JNumber i), (k2, JString n), (k3, JNumber p), (k4, q)]) =
     (if k1 = ''id'' \<and> k2 = ''name'' \<and> k3 = ''price'' \<and> k4 = ''quantity'' \<and> i = of_int \<lfloor>i\<rfloor>
      then map_option (\<lambda>q'. \<lparr>productId = \<lfloor>i\<rfloor>, name = n, price = p, quantity = q'\<rparr>) (qty_of_json q)
      else None)"
| "line_of_json _ = None"

fun cart_of_json :: "json \<Rightarrow> cart_line list option" where
  "cart_of_json (JArray js) = those (map line_of_json js)"
| "cart_of_json _ = None"

section \<open>The cart manager\<close>

text \<open>
  The state the operations act on: \<^verbatim>\<open>AppState.cart\<close>, \<^verbatim>\<open>localStorage\<close>, and the log of
  what the user and the host can observe, in order: writes to the store, refreshes of the
  cart view, notifications and scheduled redirects.
\<close>

datatype effect =
    SetItem string stored
  | UpdateCartUI
  | ShowNotification string string
  | Redirect string

record world =
  cart :: "cart_line list"
  localStorage :: "string \<rightharpoonup> stored"
  effects :: "effect list"

definition setItem :: "string \<Rightarrow> stored \<Rightarrow> world \<Rightarrow> world" where
  "setItem k v w = w\<lparr>localStorage := (localStorage w)(k \<mapsto> v), effects := effects w @ [SetItem k v]\<rparr>"

definition saveCart :: "world \<Rightarrow> world" where
  "saveCart w = setItem ''cart'' (JSON_stringify (cart w)) w"

definition updateCartUI :: "world \<Rightarrow> world" where
  "updateCartUI w = w\<lparr>effects := effects w @ [UpdateCartUI]\<rparr>"

definition showNotification :: "string \<Rightarrow> string \<Rightarrow> world \<Rightarrow> world" where
  "showNotification msg type w = w\<lparr>effects := effects w @ [ShowNotification msg type]\<rparr>"

text \<open>
  \<^verbatim>\<open>this.cart.find(item => item.id === id)\<close> is \<^const>\<open>find\<close>; an assignment to a
  property of the object found changes the first matching element of the array.
\<close>

fun modify_first :: "('a \<Rightarrow> bool) \<Rightarrow> ('a \<Rightarrow> 'a) \<Rightarrow> 'a list \<Rightarrow> 'a list" where
  "modify_first P f [] = []"
| "modify_first P f (x # xs) = (if P x then f x # xs else x # modify_first P f xs)"

definition addToCart :: "product \<Rightarrow> world \<Rightarrow> world" where
  "addToCart p w =
     (let w1 =
        (case find (\<lambda>item. productId item = productId p) (cart w) of
           Some existingItem \<Rightarrow>
             w\<lparr>cart := modify_first (\<lambda>item. productId item = productId p)
                         (\<lambda>item. item\<lparr>quantity := qty_plus (quantity item) (Qty 1)\<rparr>) (cart w)\<rparr>
         | None \<Rightarrow> w\<lparr>cart := cart w @ [new_line p]\<rparr>)
      in showNotification ''Product added to cart!'' ''success'' (updateCartUI (saveCart w1)))"

definition removeFromCart :: "int \<Rightarrow> world \<Rightarrow> world" where
  "removeFromCart pid w =
     showNotification ''Product removed from cart!'' ''success''
       (updateCartUI (saveCart (w\<lparr>cart := filter (\<lambda>item. productId item \<noteq> pid) (cart w)\<rparr>)))"

definition updateQuantity :: "int \<Rightarrow> qty \<Rightarrow> world \<Rightarrow> world" where
  "updateQuantity pid q w =
     (case find (\<lambda>item. productId item = pid) (cart w) of
        Some item \<Rightarrow>
          updateCartUI (saveCart
            (w\<lparr>cart := modify_first (\<lambda>item. productId item = pid)
                         (\<lambda>item. item\<lparr>quantity := Math_max (Qty 1) q\<rparr>) (cart w)\<rparr>))
      | None \<Rightarrow> w)"

definition getCartTotal :: "world \<Rightarrow> number" where
  "getCartTotal w =
     foldl (\<lambda>total item. num_add total (num_mul (Num (price item)) (ToNumber (quantity item))))
       (Num 0) (cart w)"

text \<open>The notifications emitted so far, as (message, type).\<close>

fun notification_of :: "effect \<Rightarrow> (string \<times> string) option" where
  "notification_of (ShowNotification msg type) = Some (msg, type)"
| "notification_of _ = None"

definition notifications :: "world \<Rightarrow> (string \<times> string) list" where
  "notifications w = List.map_filter notification_of (effects w)"

subsection \<open>Hydration\<close>

text \<open>
  The initialiser \<^verbatim>\<open>cart: JSON.parse(localStorage.getItem('cart')) || []\<close>, evaluated when
  the script loads. It has no \<^verbatim>\<open>try\<close>: an exception of \<^verbatim>\<open>JSON.parse\<close> is the outcome.
  The result is whatever value the text denotes; \<open>load_cart\<close> views it as a typed cart.
\<close>

definition hydrate :: "(string \<rightharpoonup> stored) \<Rightarrow> error + json" where
  "hydrate store =
     (case JSON_parse (store ''cart'') of
        Inl e \<Rightarrow> Inl e
      | Inr v \<Rightarrow> Inr (if truthy v then v else JArray []))"

definition load_cart :: "(string \<rightharpoonup> stored) \<Rightarrow> error + cart_line list option" where
  "load_cart store = (case hydrate store of Inl e \<Rightarrow> Inl e | Inr v \<Rightarrow> Inr (cart_of_json v))"

text \<open>
  The data-model invariants of a cart: integer ids (by type), positive integer
  quantities, non-negative prices.
\<close>

definition line_ok :: "cart_line \<Rightarrow> bool" where
  "line_ok l = ((case quantity l of Qty n \<Rightarrow> 0 < n | _ \<Rightarrow> False) \<and> 0 \<le> price l)"

definition cart_ok :: "cart_line list \<Rightarrow> bool" where
  "cart_ok c = list_all line_ok c"

subsection \<open>The quantity field\<close>

text \<open>
  \<^verbatim>\<open>parseInt(string)\<close> with no radix: leading white space is skipped, a sign is read,
  a prefix \<^verbatim>\<open>0x\<close> selects radix 16, and the longest prefix of digits is the number;
  with no digit the result is \<^verbatim>\<open>NaN\<close>. The result is the binary64 nearest to the
  integer read. Strings are ASCII here.
\<close>

definition StrWhiteSpaceChar :: "char \<Rightarrow> bool" where
  "StrWhiteSpaceChar c = (c \<in> set [CHR 0x09, CHR 0x0A, CHR 0x0B, CHR 0x0C, CHR 0x0D, CHR '' ''])"

definition digit_of :: "nat \<Rightarrow> char \<Rightarrow> nat option" where
  "digit_of R c =
     (let n = (of_char c :: nat);
          v = (if 48 \<le> n \<and> n \<le> 57 then Some (n - 48)
               else if 97 \<le> n \<and> n \<le> 122 then Some (n - 87)
               else if 65 \<le> n \<and> n \<le> 90 then Some (n - 55)
               else None)
      in case v of Some d \<Rightarrow> if d < R then Some d else None | None \<Rightarrow> None)"

definition parseInt :: "string \<Rightarrow> qty" where
  "parseInt inputString =
     (let S = dropWhile StrWhiteSpaceChar inputString;
          sign = (if take 1 S = ''-'' then - 1 else 1);
          S1 = (if take 1 S = ''+'' \<or> take 1 S = ''-'' then drop 1 S else S);
          hex = (take 2 S1 = ''0x'' \<or> take 2 S1 = ''0X'');
          R = (if hex then 16 else 10);
          S2 = (if hex then drop 2 S1 else S1);
          Z = takeWhile (\<lambda>c. digit_of R c \<noteq> None) S2
      in if Z = [] then QNaN
         else Qty (nearest_Number
                (sign * int (foldl (\<lambda>acc c. acc * R + the (digit_of R c)) 0 Z))))"

text \<open>
  The handler of the quantity field of a cart row,
  \<^verbatim>\<open>onchange="AppState.updateQuantity(${item.id}, parseInt(this.value))"\<close>.
\<close>

definition quantity_onchange :: "int \<Rightarrow> string \<Rightarrow> world \<Rightarrow> world" where
  "quantity_onchange pid this_value w = updateQuantity pid (parseInt this_value) w"

subsection \<open>Checkout\<close>

text \<open>
  The case \<^verbatim>\<open>'checkout'\<close> of \<^verbatim>\<open>handleFormSubmission\<close>. The awaited call
  \<^verbatim>\<open>ApiService.createOrder(order)\<close> is a parameter: \<open>Inr\<close> with the decoded response
  when the promise resolves, \<open>Inl\<close> with the exception when it rejects (the network
  failed, the body was not JSON, or the status was not ok). No other event is
  interleaved while the call is awaited, and writes to \<^verbatim>\<open>localStorage\<close> succeed (no
  quota is modelled).
\<close>

record order =
  items :: "cart_line list"
  shipping :: "(string \<times> string) list"
  total :: number

definition redirect :: "string \<Rightarrow> world \<Rightarrow> world" where
  "redirect href w = w\<lparr>effects := effects w @ [Redirect href]\<rparr>"

definition handleFormSubmission_checkout ::
    "(order \<Rightarrow> error + json) \<Rightarrow> (string \<times> string) list \<Rightarrow> world \<Rightarrow> error + world" where
  "handleFormSubmission_checkout createOrder data w =
     (let order = \<lparr>items = cart w, shipping = data, total = getCartTotal w\<rparr>
      in case createOrder order of
           Inl e \<Rightarrow> Inl e
         | Inr orderResult \<Rightarrow>
             Inr (redirect ''order_successful.html''
                   (saveCart ((setItem ''lastOrder'' (JSONText orderResult) w)\<lparr>cart := []\<rparr>))))"

text \<open>
  The submit handler of a checkout form. \<open>valid\<close> is the result of
  \<^verbatim>\<open>FormValidator.validateForm(form)\<close>.
\<close>

definition checkout_submit ::
    "bool \<Rightarrow> (order \<Rightarrow> error + json) \<Rightarrow> (string \<times> string) list \<Rightarrow> world \<Rightarrow> world" where
  "checkout_submit valid createOrder data w =
     (if \<not> valid then showNotification ''Please fix the errors in the form'' ''error'' w
      else case handleFormSubmission_checkout createOrder data w of
             Inr w' \<Rightarrow> showNotification ''Form submitted successfully!'' ''success'' w'
           | Inl e \<Rightarrow> showNotification (message e) ''error'' w)"

subsection \<open>Reachable states\<close>

text \<open>
  The states of the cart manager over any number of page loads: a first visit with
  nothing stored, the three cart operations, and a reload, which hydrates the cart from
  what the previous page saved.
\<close>

inductive reachable :: "world \<Rightarrow> bool" where
  first: "cart w = [] \<Longrightarrow> localStorage w ''cart'' = None \<Longrightarrow> reachable w"
| add: "reachable w \<Longrightarrow> reachable (addToCart p w)"
| remove: "reachable w \<Longrightarrow> reachable (removeFromCart pid w)"
| update: "reachable w \<Longrightarrow> reachable (updateQuantity pid q w)"
| reload: "reachable w \<Longrightarrow> load_cart (localStorage w) = Inr (Some c) \<Longrightarrow>
           reachable (w\<lparr>cart := c, effects := []\<rparr>)"

subsection \<open>The catalog and the first visit\<close>

text \<open>
  \<^verbatim>\<open>mockProducts\<close>, as the click handler of the product page hands them to
  \<^verbatim>\<open>addToCart\<close>: \<^verbatim>\<open>{id, name, price}\<close> read back from the product card.
\<close>

definition mockProducts :: "product list" where
  "mockProducts =
     [\<lparr>productId = 1, name = ''Wireless Headphones'', price = literal 9999 2\<rparr>,
      \<lparr>productId = 2, name = ''Smart Watch'', price = literal 29999 2\<rparr>,
      \<lparr>productId = 3, name = ''Laptop Stand'', price = literal 4999 2\<rparr>,
      \<lparr>productId = 4, name = ''USB-C Hub'', price = literal 7999 2\<rparr>,
      \<lparr>productId = 5, name = ''Wireless Mouse'', price = literal 3999 2\<rparr>,
      \<lparr>productId = 6, name = ''Mechanical Keyboard'', price = literal 14999 2\<rparr>]"

definition headphones :: product where
  "headphones = mockProducts ! 0"

definition laptop_stand :: product where
  "laptop_stand = mockProducts ! 2"

definition usb_hub :: product where
  "usb_hub = mockProducts ! 3"

text \<open>The state on a first visit: nothing stored, an empty cart, nothing observed yet.\<close>

definition first_visit :: world where
  "first_visit = \<lparr>cart = [], localStorage = Map.empty, effects = []\<rparr>"

text \<open>A cart of two distinct lines, built by two clicks on a first visit.\<close>

definition two_lines :: world where
  "two_lines = addToCart laptop_stand (addToCart headphones first_visit)"

subsection \<open>Predicates and sample states used in the statements\<close>

text \<open>
  The invariant of the reachable states: the ids of the cart are distinct, and the store
  holds nothing under \<^verbatim>\<open>'cart'\<close> while the cart is empty, or the serialisation of the cart.
\<close>

definition cart_inv :: "world \<Rightarrow> bool" where
  "cart_inv w \<longleftrightarrow>
     distinct (map productId (cart w)) \<and>
     (localStorage w ''cart'' = None \<and> cart w = []
      \<or> localStorage w ''cart'' = Some (JSONText (cart_json (cart w))))"

text \<open>
  The exact amount \<open>unitPrice \<times> quantity\<close> of a line and the exact sum over a cart, as
  rationals; \<open>dyadic k r\<close> says that \<open>r\<close> is a multiple of \<open>1 / 2^k\<close>.
\<close>

definition line_amount :: "cart_line \<Rightarrow> rat" where
  "line_amount l = price l * (case quantity l of Qty n \<Rightarrow> of_int n | _ \<Rightarrow> 0)"

definition exact_total :: "cart_line list \<Rightarrow> rat" where
  "exact_total c = sum_list (map line_amount c)"

definition dyadic :: "nat \<Rightarrow> rat \<Rightarrow> bool" where
  "dyadic k r = (r * 2 ^ k = of_int \<lfloor>r * 2 ^ k\<rfloor>)"

text \<open>The same three catalog products, added in two different orders on a first visit.\<close>

definition cart_a :: world where
  "cart_a = fold addToCart [headphones, usb_hub, laptop_stand] first_visit"

definition cart_b :: world where
  "cart_b = fold addToCart [laptop_stand, usb_hub, headphones] first_visit"

text \<open>A cart whose prices are multiples of one half, and the same lines in the other order.\<close>

definition halves_a :: world where
  "halves_a = first_visit\<lparr>cart :=
     [\<lparr>productId = 7, name = ''A'', price = 25 / 2, quantity = Qty 2\<rparr>,
      \<lparr>productId = 8, name = ''B'', price = 10, quantity = Qty 1\<rparr>]\<rparr>"

definition halves_b :: world where
  "halves_b = first_visit\<lparr>cart :=
     [\<lparr>productId = 8, name = ''B'', price = 10, quantity = Qty 1\<rparr>,
      \<lparr>productId = 7, name = ''A'', price = 25 / 2, quantity = Qty 2\<rparr>]\<rparr>"

section \<open>Lemmas on the list operations\<close>

lemma find_None_iff_ids: "find (\<lambda>item. productId item = pid) c = None \<longleftrightarrow> pid \<notin> productId ` set c"
  by (auto simp: find_None_iff)

lemma modify_first_append_hit:
  "\<forall>x \<in> set xs. \<not> P x \<Longrightarrow> P y \<Longrightarrow> modify_first P f (xs @ y # ys) = xs @ f y # ys"
  by (induction xs) auto

lemma find_append_hit: "\<forall>x \<in> set xs. \<not> P x \<Longrightarrow> P y \<Longrightarrow> find P (xs @ y # ys) = Some y"
  by (induction xs) auto

lemma map_modify_first_keeps:
  "(\<And>x. g (f x) = g x) \<Longrightarrow> map g (modify_first P f xs) = map g xs"
  by (induction xs) auto

lemma cart_saveCart [simp]: "cart (saveCart w) = cart w"
  by (simp add: saveCart_def setItem_def)

lemma cart_updateCartUI [simp]: "cart (updateCartUI w) = cart w"
  by (simp add: updateCartUI_def)

lemma cart_showNotification [simp]: "cart (showNotification m t w) = cart w"
  by (simp add: showNotification_def)

lemmas world_ops =
  addToCart_def removeFromCart_def updateQuantity_def saveCart_def setItem_def
  updateCartUI_def showNotification_def JSON_stringify_def

lemmas catalog =
  mockProducts_def headphones_def laptop_stand_def usb_hub_def first_visit_def new_line_def

section \<open>Facts about the rounding\<close>

lemma round_half_even_of_int: "round_half_even (of_int m) = m"
  by (simp add: round_half_even_def)

lemma round_half_even_error: "\<bar>of_int (round_half_even y) - y\<bar> \<le> 1 / 2"
proof -
  define f where "f = \<lfloor>y\<rfloor>"
  have f: "of_int f \<le> y" "y < of_int f + 1" unfolding f_def by linarith+
  consider "y - of_int f < 1 / 2" | "1 / 2 < y - of_int f" | "y - of_int f = 1 / 2"
    by linarith
  then show ?thesis
  proof cases
    case 1
    then have "round_half_even y = f" by (simp add: round_half_even_def f_def)
    with f 1 show ?thesis by simp
  next
    case 2
    then have "round_half_even y = f + 1" by (simp add: round_half_even_def f_def)
    with f 2 show ?thesis by simp
  next
    case 3
    then have "round_half_even y = f \<or> round_half_even y = f + 1"
      by (simp add: round_half_even_def f_def Let_def)
    with f 3 show ?thesis by auto
  qed
qed

lemma binade_lower_ge1:
  assumes "1 \<le> x"
  shows "2 powi (binade x) \<le> x"
proof -
  let ?m = "nat \<lfloor>x\<rfloor>"
  have m: "0 < ?m" using assms by simp
  have fl: "0 < floorlog 2 ?m" using m by (simp add: floorlog_def)
  have "(2::nat) ^ (floorlog 2 ?m - 1) \<le> ?m"
    using floorlog_bounds [of ?m 2] m by simp
  then have "(of_nat ((2::nat) ^ (floorlog 2 ?m - 1)) :: rat) \<le> of_nat ?m"
    by (simp only: of_nat_le_iff)
  also have "(of_nat ?m :: rat) = of_int \<lfloor>x\<rfloor>" using assms by simp
  also have "\<dots> \<le> x" by simp
  finally have "(2::rat) ^ (floorlog 2 ?m - 1) \<le> x" by simp
  moreover have "binade x = int (floorlog 2 ?m - 1)"
    using assms fl by (simp add: binade_def of_nat_diff)
  ultimately show ?thesis by simp
qed

lemma binade_lower_lt1:
  assumes "0 < x" "x < 1"
  shows "2 powi (binade x) \<le> x"
proof -
  let ?m = "nat (\<lceil>1 / x\<rceil> - 1)"
  have "1 < 1 / x" using assms by simp
  then have c: "2 \<le> \<lceil>1 / x\<rceil>" by (simp add: le_ceiling_iff less_ceiling_iff) 
  then have m: "0 < ?m" by simp
  have "?m < 2 ^ floorlog 2 ?m"
    using floorlog_bounds [of ?m 2] m by simp
  then have "int ?m < 2 ^ floorlog 2 ?m"
    by (metis of_nat_less_iff of_nat_numeral of_nat_power)
  moreover from c have "0 \<le> \<lceil>1 / x\<rceil> - 1" by linarith
  then have "int ?m = \<lceil>1 / x\<rceil> - 1" by (rule nat_0_le)
  ultimately have "\<lceil>1 / x\<rceil> \<le> 2 ^ floorlog 2 ?m" by linarith
  then have "1 / x \<le> of_int (2 ^ floorlog 2 ?m)"
    by (simp only: ceiling_le_iff)
  then have "1 / x \<le> 2 ^ floorlog 2 ?m" by simp
  then have "1 / 2 ^ floorlog 2 ?m \<le> x"
    using assms(1) by (simp add: field_simps)
  moreover have "binade x = - int (floorlog 2 ?m)"
    using assms by (simp add: binade_def)
  ultimately show ?thesis by (simp add: power_int_minus_divide)
qed

lemma binade_lower: "0 < x \<Longrightarrow> 2 powi (binade x) \<le> x"
  using binade_lower_ge1 [of x] binade_lower_lt1 [of x] by (cases "1 \<le> x") auto

lemma binade_upper_ge1:
  assumes "1 \<le> x"
  shows "x < 2 powi (binade x + 1)"
proof -
  let ?m = "nat \<lfloor>x\<rfloor>"
  have m: "0 < ?m" using assms by simp
  have fl: "0 < floorlog 2 ?m" using m by (simp add: floorlog_def)
  have "?m < 2 ^ floorlog 2 ?m"
    using floorlog_bounds [of ?m 2] m by simp
  then have "int ?m < 2 ^ floorlog 2 ?m"
    by (metis of_nat_less_iff of_nat_numeral of_nat_power)
  moreover have "int ?m = \<lfloor>x\<rfloor>" using assms by simp
  ultimately have "\<lfloor>x\<rfloor> + 1 \<le> 2 ^ floorlog 2 ?m" by linarith
  then have "(of_int (\<lfloor>x\<rfloor> + 1) :: rat) \<le> of_int (2 ^ floorlog 2 ?m)"
    by (simp only: of_int_le_iff)
  moreover have "x < of_int (\<lfloor>x\<rfloor> + 1)" by linarith
  ultimately have "x < 2 ^ floorlog 2 ?m" by simp
  moreover have "binade x + 1 = int (floorlog 2 ?m)"
    using assms fl by (simp add: binade_def)
  ultimately show ?thesis by simp
qed

lemma binade_upper_lt1:
  assumes "0 < x" "x < 1"
  shows "x < 2 powi (binade x + 1)"
proof -
  let ?m = "nat (\<lceil>1 / x\<rceil> - 1)"
  have "1 < 1 / x" using assms by simp
  then have c: "2 \<le> \<lceil>1 / x\<rceil>" by (simp add: le_ceiling_iff less_ceiling_iff)
  then have m: "0 < ?m" by simp
  have fl: "0 < floorlog 2 ?m" using m by (simp add: floorlog_def)
  have "(2::nat) ^ (floorlog 2 ?m - 1) \<le> ?m"
    using floorlog_bounds [of ?m 2] m by simp
  then have "(2::int) ^ (floorlog 2 ?m - 1) \<le> int ?m"
    by (metis of_nat_le_iff of_nat_numeral of_nat_power)
  moreover from c have "0 \<le> \<lceil>1 / x\<rceil> - 1" by linarith
  then have "int ?m = \<lceil>1 / x\<rceil> - 1" by (rule nat_0_le)
  ultimately have "(2::int) ^ (floorlog 2 ?m - 1) < \<lceil>1 / x\<rceil>" by linarith
  then have "of_int (2 ^ (floorlog 2 ?m - 1)) < 1 / x"
    by (simp only: less_ceiling_iff)
  then have "(2::rat) ^ (floorlog 2 ?m - 1) < 1 / x" by simp
  then have "x < 1 / 2 ^ (floorlog 2 ?m - 1)"
    using assms(1) by (simp add: field_simps)
  moreover have "binade x + 1 = - int (floorlog 2 ?m - 1)"
    using assms fl by (simp add: binade_def of_nat_diff)
  ultimately show ?thesis by (simp only: power_int_minus_divide power_int_of_nat)
qed

lemma binade_upper: "0 < x \<Longrightarrow> x < 2 powi (binade x + 1)"
  using binade_upper_ge1 [of x] binade_upper_lt1 [of x] by (cases "1 \<le> x") auto

text \<open>
  So \<open>binary64\<close> moves a number by at most half a unit in the last of its 53 places,
  and leaves a number of at most 53 significant bits where it is.
\<close>

lemma binary64_error:
  "\<bar>binary64 x - x\<bar> \<le> 2 powi (binade \<bar>x\<bar> - 53)"
proof (cases "x = 0")
  case True
  then show ?thesis by (simp add: binary64_def)
next
  case False
  define u :: rat where "u = 2 powi (binade \<bar>x\<bar> - 52)"
  have u: "0 < u" by (simp add: u_def)
  have "binary64 x - x = (of_int (round_half_even (x / u)) - x / u) * u"
    using False u by (simp add: binary64_def Let_def u_def [symmetric] left_diff_distrib)
  then have "\<bar>binary64 x - x\<bar> = \<bar>of_int (round_half_even (x / u)) - x / u\<bar> * u"
    using u by (simp add: abs_mult)
  also have "\<dots> \<le> 1 / 2 * u"
    using u round_half_even_error [of "x / u"] by (intro mult_right_mono) simp_all
  also have "\<dots> = 2 powi (binade \<bar>x\<bar> - 53)"
    by (simp add: u_def power_int_diff)
  finally show ?thesis .
qed



lemma dyadic_representable:
  assumes "\<bar>n\<bar> \<le> 2 ^ 53"
  shows "binary64 (of_int n / 2 ^ k) = of_int n / 2 ^ k"
proof (cases "n = 0")
  case True
  then show ?thesis by (simp add: binary64_def)
next
  case False
  define x :: rat where "x = of_int n / 2 ^ k"
  define e where "e = binade \<bar>x\<bar>"
  define j where "j = e + int k"
  have x0: "x \<noteq> 0" "0 < \<bar>x\<bar>" using False by (simp_all add: x_def)
  have absx: "\<bar>x\<bar> = of_int \<bar>n\<bar> / 2 ^ k" by (simp add: x_def)
  have "2 powi e \<le> \<bar>x\<bar>" unfolding e_def using x0(2) by (rule binade_lower)
  then have "(2::rat) powi e * 2 ^ k \<le> of_int \<bar>n\<bar>"
    by (simp add: absx field_simps)
  then have low: "(2::rat) powi j \<le> of_int \<bar>n\<bar>"
    by (simp add: j_def power_int_add)
  also have "(of_int \<bar>n\<bar> :: rat) \<le> of_int (2 ^ 53)"
    using assms by (simp only: of_int_le_iff)
  finally have "(2::rat) powi j \<le> 2 powi 53" by simp
  then have j53: "j \<le> 53"
    by (rule power_int_le_imp_le_exp [rotated]) simp_all
  have "\<exists>m. x / 2 powi (e - 52) = of_int m"
  proof (cases "j \<le> 52")
    case True
    have "x / 2 powi (e - 52) = of_int n * 2 powi (52 - j)"
      by (simp add: x_def j_def power_int_diff power_int_add field_simps)
    also have "\<dots> = of_int (n * 2 ^ nat (52 - j))"
      using True by (simp add: power_int_nonneg_exp)
    finally show ?thesis by blast
  next
    case False
    with j53 have j: "j = 53" by simp
    with low have "2 ^ 53 \<le> \<bar>n\<bar>"
      by (metis of_int_le_iff of_int_numeral of_int_power power_int_numeral)
    with assms have "\<bar>n\<bar> = 2 ^ 53" by simp
    then have "even \<bar>n\<bar>" by simp
    then have "even n" by simp
    then obtain h where h: "n = 2 * h" by (elim evenE)
    have "x / 2 powi (e - 52) = of_int n * 2 powi (52 - j)"
      by (simp add: x_def j_def power_int_diff power_int_add field_simps)
    also have "\<dots> = of_int h" using j h by simp
    finally show ?thesis by blast
  qed
  then obtain m where m: "x / 2 powi (e - 52) = of_int m" ..
  have "binary64 x = of_int (round_half_even (x / 2 powi (e - 52))) * 2 powi (e - 52)"
    using x0(1) by (simp add: binary64_def Let_def e_def)
  also have "\<dots> = x / 2 powi (e - 52) * 2 powi (e - 52)"
    by (simp only: m round_half_even_of_int)
  also have "\<dots> = x" by simp
  finally show ?thesis by (simp add: x_def)
qed

text \<open>The model on a familiar sum: \<^verbatim>\<open>0.1 + 0.2\<close> is \<^verbatim>\<open>0.30000000000000004\<close>, not \<^verbatim>\<open>0.3\<close>.\<close>

lemma binary64_tenth_plus_fifth:
  "num_add (Num (literal 1 1)) (Num (literal 2 1)) = Num (5404319552844596 / 2 ^ 54)"
  "literal 3 1 = 5404319552844595 / 2 ^ 54"
  by code_simp+

text \<open>Integers: exact up to \<open>2^53\<close>, and \<open>2^53 + 1\<close> is a tie that goes to the even \<open>2^53\<close>.\<close>

lemma nearest_Number_exact:
  assumes "\<bar>n\<bar> \<le> 2 ^ 53"
  shows "nearest_Number n = n"
proof -
  have "binary64 (of_int n / 2 ^ 0) = of_int n / 2 ^ 0"
    using assms by (rule dyadic_representable)
  then show ?thesis by (simp add: nearest_Number_def)
qed

lemma binade_unique:
  assumes "0 < x" "2 powi e \<le> x" "x < 2 powi (e + 1)"
  shows "binade x = e"
proof -
  have "(2::rat) powi binade x < 2 powi (e + 1)"
    using binade_lower [OF assms(1)] assms(3) by (rule order_le_less_trans)
  then have 1: "binade x < e + 1"
    by (metis linorder_not_less one_le_numeral power_int_increasing)
  have "(2::rat) powi e < 2 powi (binade x + 1)"
    using assms(2) binade_upper [OF assms(1)] by (rule order_le_less_trans)
  then have 2: "e < binade x + 1"
    by (metis linorder_not_less one_le_numeral power_int_increasing)
  from 1 2 show ?thesis by simp
qed

lemma nearest_Number_above: "nearest_Number (2 ^ 53 + 1) = 2 ^ 53"
proof -
  have b: "binade (9007199254740993 :: rat) = 53"
    by (rule binade_unique) simp_all
  have fl: "\<lfloor>(9007199254740993 :: rat) / 2\<rfloor> = 4503599627370496"
    by (rule floor_unique) simp_all
  have "round_half_even (9007199254740993 / 2) = 4503599627370496"
    by (simp add: round_half_even_def Let_def fl)
  then have "binary64 9007199254740993 = 9007199254740992"
    by (simp add: binary64_def Let_def b)
  then show ?thesis by (simp add: nearest_Number_def)
qed

lemma qty_plus_one:
  assumes "0 \<le> k" "k \<le> 2 ^ 53"
  shows "qty_plus (Qty k) (Qty 1) = Qty (min (k + 1) (2 ^ 53))"
proof (cases "k = 2 ^ 53")
  case True
  then show ?thesis using nearest_Number_above by (simp add: qty_plus_def)
next
  case False
  with assms have "\<bar>k + 1\<bar> \<le> 2 ^ 53" by simp
  then have "nearest_Number (k + 1) = k + 1" by (rule nearest_Number_exact)
  with assms False show ?thesis by (simp add: qty_plus_def)
qed

section \<open>Adding to the cart\<close>

lemma cart_addToCart_absent:
  "productId p \<notin> productId ` set (cart w) \<Longrightarrow> cart (addToCart p w) = cart w @ [new_line p]"
  by (simp add: addToCart_def find_None_iff_ids [symmetric])

lemma cart_addToCart_present:
  "find (\<lambda>item. productId item = productId p) (cart w) = Some x \<Longrightarrow>
   cart (addToCart p w) =
     modify_first (\<lambda>item. productId item = productId p)
       (\<lambda>item. item\<lparr>quantity := qty_plus (quantity item) (Qty 1)\<rparr>) (cart w)"
  by (simp add: addToCart_def)

lemma cart_addToCart_last:
  assumes "productId l \<notin> productId ` set c" "cart w = c @ [l]" "productId p = productId l"
  shows "cart (addToCart p w) = c @ [l\<lparr>quantity := qty_plus (quantity l) (Qty 1)\<rparr>]"
proof -
  have no: "\<forall>x \<in> set c. \<not> (productId x = productId p)"
    using assms by (auto simp: image_iff)
  have "find (\<lambda>item. productId item = productId p) (cart w) = Some l"
    using assms(2,3) find_append_hit [OF no, of l "[]"] by simp
  then have "cart (addToCart p w) =
     modify_first (\<lambda>item. productId item = productId p)
       (\<lambda>item. item\<lparr>quantity := qty_plus (quantity item) (Qty 1)\<rparr>) (c @ [l])"
    using assms(2) by (simp add: cart_addToCart_present)
  also have "\<dots> = c @ [l\<lparr>quantity := qty_plus (quantity l) (Qty 1)\<rparr>]"
    using modify_first_append_hit [OF no, of l _ "[]"] assms(3) by simp
  finally show ?thesis .
qed

lemma fold_addToCart_same_id:
  assumes "productId l \<notin> productId ` set c" "cart w = c @ [l]" "quantity l = Qty k"
    and "0 \<le> k" "k \<le> 2 ^ 53"
    and "\<forall>q \<in> set qs. productId q = productId l"
  shows "cart (fold addToCart qs w) =
           c @ [l\<lparr>quantity := Qty (min (k + int (length qs)) (2 ^ 53))\<rparr>]"
  using assms
proof (induction qs arbitrary: w l k)
  case Nil
  then show ?case by simp
next
  case (Cons q qs)
  define k' where "k' = min (k + 1) (2 ^ 53)"
  let ?l' = "l\<lparr>quantity := Qty k'\<rparr>"
  have k': "0 \<le> k'" "k' \<le> 2 ^ 53"
    using Cons.prems(4) by (simp_all add: k'_def)
  have "qty_plus (quantity l) (Qty 1) = Qty k'"
    unfolding k'_def Cons.prems(3) using Cons.prems(4,5) by (rule qty_plus_one)
  then have step: "cart (addToCart q w) = c @ [?l']"
    using cart_addToCart_last [of l c w q] Cons.prems by simp
  have "cart (fold addToCart qs (addToCart q w)) =
          c @ [?l'\<lparr>quantity := Qty (min (k' + int (length qs)) (2 ^ 53))\<rparr>]"
    by (rule Cons.IH [OF _ step _ k']) (use Cons.prems in auto)
  moreover have "min (k' + int (length qs)) (2 ^ 53) = min (k + int (length (q # qs))) (2 ^ 53)"
    by (simp add: k'_def min_def)
  ultimately show ?case by simp
qed

text \<open>
  C1, as amended. Let the cart hold no line with the id of product \<open>p\<close>, and call
  \<^verbatim>\<open>addToCart\<close> \<open>n\<close> times in a row, \<open>n \<ge> 1\<close>, first with \<open>p\<close> and then with products
  \<open>qs\<close> of the same id. The cart is then the old cart followed by one new line, which
  carries the name and price of \<open>p\<close>; so exactly one line has that id. Its quantity is
  \<open>n\<close> as long as \<open>n \<le> 2^53\<close>, and \<open>2^53\<close> from then on: the first call appends a line of
  quantity 1, each later call adds 1 in binary64, and \<open>2^53 + 1\<close> rounds back to \<open>2^53\<close>.
\<close>

theorem addToCart_repeated:
  assumes "productId p \<notin> productId ` set (cart w)"
    and "\<forall>q \<in> set qs. productId q = productId p"
  shows "cart (fold addToCart (p # qs) w) =
           cart w @ [\<lparr>productId = productId p, name = name p, price = price p,
                      quantity = Qty (min (int (length (p # qs))) (2 ^ 53))\<rparr>]
         \<and> length (filter (\<lambda>item. productId item = productId p)
                    (cart (fold addToCart (p # qs) w))) = 1"
proof -
  have first: "cart (addToCart p w) = cart w @ [new_line p]"
    using assms(1) by (simp add: cart_addToCart_absent)
  have "cart (fold addToCart qs (addToCart p w)) =
          cart w @ [(new_line p)\<lparr>quantity := Qty (min (1 + int (length qs)) (2 ^ 53))\<rparr>]"
    by (rule fold_addToCart_same_id [OF _ first]) (use assms in \<open>auto simp: new_line_def\<close>)
  then have eq: "cart (fold addToCart (p # qs) w) =
           cart w @ [\<lparr>productId = productId p, name = name p, price = price p,
                      quantity = Qty (min (int (length (p # qs))) (2 ^ 53))\<rparr>]"
    by (simp add: new_line_def)
  have "filter (\<lambda>item. productId item = productId p) (cart w) = []"
    using assms(1) by (auto simp: filter_empty_conv image_iff)
  with eq show ?thesis by simp
qed

theorem addToCart_repeated_witness:
  "productId headphones \<notin> productId ` set (cart (addToCart usb_hub first_visit))
   \<and> cart (fold addToCart [headphones, headphones, headphones] (addToCart usb_hub first_visit)) =
       [\<lparr>productId = 4, name = ''USB-C Hub'', price = literal 7999 2, quantity = Qty 1\<rparr>,
        \<lparr>productId = 1, name = ''Wireless Headphones'', price = literal 9999 2, quantity = Qty 3\<rparr>]
   \<and> length (filter (\<lambda>item. productId item = productId headphones)
         (cart (fold addToCart [headphones, headphones, headphones] (addToCart usb_hub first_visit)))) = 1"
proof -
  have c: "cart (addToCart usb_hub first_visit) =
      [\<lparr>productId = 4, name = ''USB-C Hub'', price = literal 7999 2, quantity = Qty 1\<rparr>]"
    by (simp add: addToCart_def catalog)
  have h: "productId headphones \<notin> productId ` set (cart (addToCart usb_hub first_visit))"
    by (simp add: c) (simp add: catalog)
  have "productId headphones = 1" "name headphones = ''Wireless Headphones''"
    "price headphones = literal 9999 2"
    by (simp_all add: catalog)
  with addToCart_repeated [OF h, of "[headphones, headphones]"] h c show ?thesis
    by simp
qed

text \<open>
  C1 as stated fails once the count passes \<open>2^53\<close>: after \<open>2^53 + 1\<close> calls with the
  headphones on a first visit, the quantity of the line is \<open>2^53\<close>, not the number of
  calls.
\<close>

theorem addToCart_repeated_counterexample:
  "productId headphones \<notin> productId ` set (cart first_visit)
   \<and> int (length (headphones # replicate (2 ^ 53) headphones)) = 2 ^ 53 + 1
   \<and> cart (fold addToCart (headphones # replicate (2 ^ 53) headphones) first_visit) =
       [\<lparr>productId = 1, name = ''Wireless Headphones'', price = literal 9999 2,
         quantity = Qty (2 ^ 53)\<rparr>]
   \<and> cart (fold addToCart (headphones # replicate (2 ^ 53) headphones) first_visit) \<noteq>
       [\<lparr>productId = 1, name = ''Wireless Headphones'', price = literal 9999 2,
         quantity = Qty (int (length (headphones # replicate (2 ^ 53) headphones)))\<rparr>]"
proof -
  let ?l = "\<lparr>productId = 1, name = ''Wireless Headphones'', price = literal 9999 2,
              quantity = Qty 1\<rparr>"
  have len: "int (length (headphones # replicate (2 ^ 53) headphones)) = 2 ^ 53 + 1"
    by simp
  have first: "cart (addToCart headphones first_visit) = [] @ [?l]"
    by (simp add: addToCart_def catalog)
  have same: "\<forall>q \<in> set (replicate (2 ^ 53) headphones). productId q = productId ?l"
    by (simp add: catalog)
  have "cart (fold addToCart (replicate (2 ^ 53) headphones) (addToCart headphones first_visit)) =
          [] @ [?l\<lparr>quantity := Qty (min (1 + int (length (replicate (2 ^ 53) headphones :: product list)))
                                     (2 ^ 53))\<rparr>]"
    by (rule fold_addToCart_same_id [OF _ first _ _ _ same]) simp_all
  then have res: "cart (fold addToCart (headphones # replicate (2 ^ 53) headphones) first_visit) =
       [\<lparr>productId = 1, name = ''Wireless Headphones'', price = literal 9999 2,
         quantity = Qty (2 ^ 53)\<rparr>]"
    by simp
  have "productId headphones \<notin> productId ` set (cart first_visit)"
    by (simp add: first_visit_def)
  with len res show ?thesis by simp
qed

section \<open>Updating a quantity\<close>

text \<open>
  C9. When no line of the cart has the id given, \<^verbatim>\<open>updateQuantity\<close> is a silent no-op,
  whatever quantity is requested: the cart, the persistent store and the log of effects
  (so: no write to the store, no refresh, no notification) are all as before.
\<close>

theorem updateQuantity_absent_noop:
  "pid \<notin> productId ` set (cart w) \<Longrightarrow> updateQuantity pid q w = w"
  by (simp add: updateQuantity_def find_None_iff_ids [symmetric])

theorem updateQuantity_absent_noop_witness:
  "99 \<notin> productId ` set (cart (addToCart headphones first_visit))
   \<and> updateQuantity 99 (Qty 5) (addToCart headphones first_visit) = addToCart headphones first_visit"
proof -
  have h: "99 \<notin> productId ` set (cart (addToCart headphones first_visit))"
    by (simp add: addToCart_def catalog)
  from updateQuantity_absent_noop [OF h] h show ?thesis by simp
qed

text \<open>
  C2. When a line with the id is present and the requested quantity is an integer \<open>q\<close> of
  any sign and size, \<^verbatim>\<open>updateQuantity\<close> sets the quantity of that line (the first line
  with the id) to \<open>max 1 q\<close> and leaves every other line, and the order, as they were.
\<close>

theorem updateQuantity_present_clamps:
  assumes "pid \<in> productId ` set (cart w)"
  shows "\<exists>xs item ys. cart w = xs @ item # ys \<and> pid \<notin> productId ` set xs \<and> productId item = pid \<and>
           cart (updateQuantity pid (Qty q) w) = xs @ item\<lparr>quantity := Qty (max 1 q)\<rparr> # ys"
proof -
  from assms have "\<exists>x \<in> set (cart w). productId x = pid" by auto
  then obtain xs item ys where split: "cart w = xs @ item # ys" "productId item = pid"
      "\<forall>x \<in> set xs. \<not> productId x = pid"
    using split_list_first_prop [of "cart w" "\<lambda>x. productId x = pid"] by blast
  have found: "find (\<lambda>item. productId item = pid) (cart w) = Some item"
    using split find_append_hit [of xs "\<lambda>x. productId x = pid" item ys] by simp
  have "cart (updateQuantity pid (Qty q) w) =
          modify_first (\<lambda>item. productId item = pid)
            (\<lambda>item. item\<lparr>quantity := Math_max (Qty 1) (Qty q)\<rparr>) (xs @ item # ys)"
    using found split(1) by (simp add: updateQuantity_def)
  also have "\<dots> = xs @ item\<lparr>quantity := Qty (max 1 q)\<rparr> # ys"
    using modify_first_append_hit [of xs "\<lambda>x. productId x = pid" item _ ys] split
    by (simp add: Math_max_def)
  finally have "cart (updateQuantity pid (Qty q) w) = xs @ item\<lparr>quantity := Qty (max 1 q)\<rparr> # ys" .
  moreover have "pid \<notin> productId ` set xs"
    using split(3) by (auto simp: image_iff)
  ultimately show ?thesis using split(1,2) by blast
qed

theorem updateQuantity_present_clamps_witness:
  "1 \<in> productId ` set (cart (addToCart headphones first_visit))
   \<and> (\<exists>xs item ys. cart (addToCart headphones first_visit) = xs @ item # ys
         \<and> 1 \<notin> productId ` set xs \<and> productId item = 1
         \<and> cart (updateQuantity 1 (Qty (- 3)) (addToCart headphones first_visit)) =
             xs @ item\<lparr>quantity := Qty (max 1 (- 3))\<rparr> # ys)"
proof -
  have h: "1 \<in> productId ` set (cart (addToCart headphones first_visit))"
    by (simp add: addToCart_def catalog)
  from updateQuantity_present_clamps [OF h, of "- 3"] h show ?thesis by blast
qed

section \<open>The quantity field\<close>

lemma parseInt_abc: "parseInt ''abc'' = QNaN"
  by (simp add: parseInt_def StrWhiteSpaceChar_def digit_of_def)

lemma parseInt_empty: "parseInt '''' = QNaN"
  by (simp add: parseInt_def)

lemma cart_headphones:
  "cart (addToCart headphones first_visit) =
     [\<lparr>productId = 1, name = ''Wireless Headphones'', price = literal 9999 2, quantity = Qty 1\<rparr>]"
  by (simp add: addToCart_def catalog)

lemma two_lines_cart:
  "cart two_lines =
     [\<lparr>productId = 1, name = ''Wireless Headphones'', price = literal 9999 2, quantity = Qty 1\<rparr>,
      \<lparr>productId = 3, name = ''Laptop Stand'', price = literal 4999 2, quantity = Qty 1\<rparr>]"
  by (simp add: two_lines_def addToCart_def catalog)

text \<open>
  C4. The claim is that a non-numeric, zero or negative entry in the quantity field
  leaves the quantity 1. On a non-numeric entry the code does otherwise: \<^verbatim>\<open>parseInt\<close>
  gives \<^verbatim>\<open>NaN\<close>, \<^verbatim>\<open>Math.max(1, NaN)\<close> is \<^verbatim>\<open>NaN\<close>, and the line's quantity is \<^verbatim>\<open>NaN\<close>
  afterwards. The entries \<^verbatim>\<open>abc\<close> and the empty string (what a number field reports for
  text that is not a number) on a cart holding the line of product 1:
\<close>

theorem quantity_onchange_non_numeric:
  "cart (quantity_onchange 1 ''abc'' (addToCart headphones first_visit)) =
     [\<lparr>productId = 1, name = ''Wireless Headphones'', price = literal 9999 2, quantity = QNaN\<rparr>]
   \<and> cart (quantity_onchange 1 '''' (addToCart headphones first_visit)) =
     [\<lparr>productId = 1, name = ''Wireless Headphones'', price = literal 9999 2, quantity = QNaN\<rparr>]"
  by (simp add: quantity_onchange_def parseInt_abc parseInt_empty updateQuantity_def
      cart_headphones Math_max_def)

text \<open>
  Zero and negative entries are clamped: an entry that \<^verbatim>\<open>parseInt\<close> reads as an
  integer \<open>n \<le> 0\<close> leaves the quantity of the line at 1.
\<close>

theorem quantity_onchange_not_positive:
  assumes "pid \<in> productId ` set (cart w)" and "parseInt v = Qty n" and "n \<le> 0"
  shows "\<exists>xs item ys. cart w = xs @ item # ys \<and> pid \<notin> productId ` set xs \<and> productId item = pid \<and>
           cart (quantity_onchange pid v w) = xs @ item\<lparr>quantity := Qty 1\<rparr> # ys"
proof -
  from assms(1) have "\<exists>x \<in> set (cart w). productId x = pid" by auto
  then obtain xs item ys where split: "cart w = xs @ item # ys" "productId item = pid"
      "\<forall>x \<in> set xs. \<not> productId x = pid"
    using split_list_first_prop [of "cart w" "\<lambda>x. productId x = pid"] by blast
  have found: "find (\<lambda>item. productId item = pid) (cart w) = Some item"
    using split find_append_hit [of xs "\<lambda>x. productId x = pid" item ys] by simp
  have "cart (quantity_onchange pid v w) =
          modify_first (\<lambda>item. productId item = pid)
            (\<lambda>item. item\<lparr>quantity := Math_max (Qty 1) (Qty n)\<rparr>) (xs @ item # ys)"
    using found split(1) assms(2) by (simp add: quantity_onchange_def updateQuantity_def)
  also have "\<dots> = xs @ item\<lparr>quantity := Qty 1\<rparr> # ys"
    using modify_first_append_hit [of xs "\<lambda>x. productId x = pid" item _ ys] split assms(3)
    by (simp add: Math_max_def max_def)
  finally have "cart (quantity_onchange pid v w) = xs @ item\<lparr>quantity := Qty 1\<rparr> # ys" .
  moreover have "pid \<notin> productId ` set xs"
    using split(3) by (auto simp: image_iff)
  ultimately show ?thesis using split(1,2) by blast
qed

theorem quantity_onchange_not_positive_witness:
  "1 \<in> productId ` set (cart (addToCart headphones first_visit)) \<and> parseInt ''-2'' = Qty (- 2)
   \<and> (\<exists>xs item ys. cart (addToCart headphones first_visit) = xs @ item # ys
         \<and> 1 \<notin> productId ` set xs \<and> productId item = 1
         \<and> cart (quantity_onchange 1 ''-2'' (addToCart headphones first_visit)) =
             xs @ item\<lparr>quantity := Qty 1\<rparr> # ys)"
proof -
  have h: "1 \<in> productId ` set (cart (addToCart headphones first_visit))"
    by (simp add: cart_headphones)
  have "nearest_Number (- 2) = - 2"
    by (rule nearest_Number_exact) simp
  then have p: "parseInt ''-2'' = Qty (- 2)"
    by (simp add: parseInt_def StrWhiteSpaceChar_def digit_of_def)
  from quantity_onchange_not_positive [OF h p] h p show ?thesis by simp
qed

section \<open>Removing from the cart\<close>

lemma map_filter_append:
  "List.map_filter f (xs @ ys) = List.map_filter f xs @ List.map_filter f ys"
  by (simp add: List.map_filter_def)

text \<open>
  C8, as amended. When no line of the cart has the id given, \<^verbatim>\<open>removeFromCart\<close> leaves
  the contents of the cart as they were; it still writes the cart to the store, refreshes
  the view and emits the notification \<^verbatim>\<open>Product removed from cart!\<close>, as on every call.
\<close>

theorem removeFromCart_absent:
  assumes "pid \<notin> productId ` set (cart w)"
  shows "cart (removeFromCart pid w) = cart w
       \<and> effects (removeFromCart pid w) =
           effects w @ [SetItem ''cart'' (JSON_stringify (cart w)), UpdateCartUI,
                        ShowNotification ''Product removed from cart!'' ''success'']
       \<and> notifications (removeFromCart pid w) =
           notifications w @ [(''Product removed from cart!'', ''success'')]"
proof -
  have "filter (\<lambda>item. productId item \<noteq> pid) (cart w) = cart w"
    using assms by (auto simp: filter_id_conv image_iff)
  then show ?thesis
    by (simp add: world_ops notifications_def List.map_filter_simps map_filter_append)
qed

theorem removeFromCart_absent_witness:
  "99 \<notin> productId ` set (cart two_lines)
   \<and> cart (removeFromCart 99 two_lines) = cart two_lines
   \<and> notifications (removeFromCart 99 two_lines) =
       notifications two_lines @ [(''Product removed from cart!'', ''success'')]"
proof -
  have h: "99 \<notin> productId ` set (cart two_lines)"
    by (simp add: two_lines_cart)
  from removeFromCart_absent [OF h] h show ?thesis by simp
qed

text \<open>
  C8 as stated fails: on the cart of two lines, removing the absent id 99 does emit a
  notification.
\<close>

theorem removeFromCart_absent_counterexample:
  "99 \<notin> productId ` set (cart two_lines)
   \<and> \<not> (cart (removeFromCart 99 two_lines) = cart two_lines
          \<and> notifications (removeFromCart 99 two_lines) = notifications two_lines)"
  by (simp add: two_lines_cart)
     (simp add: world_ops notifications_def List.map_filter_simps map_filter_append)

section \<open>Hydration and the round trip through the store\<close>

text \<open>
  C3, as amended. Hydration gives the empty cart when the key is absent. When the
  stored string is not JSON, \<^verbatim>\<open>JSON.parse\<close> raises a \<^verbatim>\<open>SyntaxError\<close> and the initialiser
  does not catch it: the error is the outcome, not an empty cart.
\<close>

theorem hydrate_absent_or_malformed:
  "hydrate (store(''cart'' := None)) = Inr (JArray [])
   \<and> hydrate (store(''cart'' \<mapsto> Malformed m)) = Inl (SyntaxError m)"
  by (simp add: hydrate_def)

text \<open>C3 as stated fails on a store whose entry is cut short, such as \<^verbatim>\<open>[{\<close>.\<close>

theorem hydrate_malformed_counterexample:
  "hydrate [''cart'' \<mapsto> Malformed ''Unexpected end of JSON input''] \<noteq> Inr (JArray [])
   \<and> hydrate [''cart'' \<mapsto> Malformed ''Unexpected end of JSON input''] =
       Inl (SyntaxError ''Unexpected end of JSON input'')"
  by (simp add: hydrate_def)

lemma line_roundtrip: "quantity l = Qty n \<Longrightarrow> line_of_json (line_json l) = Some l"
  by (simp add: line_json_def)

lemma those_map_Some: "\<forall>x \<in> set xs. f x = Some x \<Longrightarrow> those (map f xs) = Some xs"
  by (induction xs) auto

lemma cart_roundtrip:
  assumes "cart_ok c"
  shows "cart_of_json (cart_json c) = Some c"
proof -
  have "\<forall>l \<in> set c. line_of_json (line_json l) = Some l"
  proof
    fix l assume "l \<in> set c"
    with assms have "line_ok l" by (simp add: cart_ok_def list_all_iff)
    then obtain n where "quantity l = Qty n"
      by (auto simp: line_ok_def split: qty.splits)
    then show "line_of_json (line_json l) = Some l" by (rule line_roundtrip)
  qed
  then have "those (map line_of_json (map line_json c)) = Some c"
    using those_map_Some [of c "line_of_json \<circ> line_json"] by (simp add: comp_def)
  then show ?thesis by (simp add: cart_json_def)
qed

text \<open>
  C10. For a cart within the data-model invariants (positive integer quantities,
  non-negative prices; ids are integers by type), \<^verbatim>\<open>saveCart\<close> followed by hydration
  from the store gives back the cart exactly.
\<close>

theorem save_then_hydrate:
  assumes "cart_ok (cart w)"
  shows "load_cart (localStorage (saveCart w)) = Inr (Some (cart w))"
  using cart_roundtrip [OF assms]
  by (simp add: load_cart_def hydrate_def saveCart_def setItem_def JSON_stringify_def cart_json_def)

theorem save_then_hydrate_witness:
  "cart_ok (cart two_lines)
   \<and> load_cart (localStorage (saveCart two_lines)) = Inr (Some (cart two_lines))"
proof -
  have "(0::rat) \<le> literal 9999 2" "(0::rat) \<le> literal 4999 2"
    by code_simp+
  then have h: "cart_ok (cart two_lines)"
    by (simp add: two_lines_cart cart_ok_def line_ok_def)
  from save_then_hydrate [OF h] h show ?thesis by simp
qed

text \<open>
  Outside the invariants the round trip can change the cart: a quantity \<^verbatim>\<open>NaN\<close> is
  written as \<^verbatim>\<open>null\<close> and comes back as \<^verbatim>\<open>null\<close>.
\<close>

lemma NaN_quantity_reloads_as_null:
  "load_cart (localStorage (saveCart (first_visit\<lparr>cart :=
      [\<lparr>productId = 1, name = ''A'', price = 10, quantity = QNaN\<rparr>]\<rparr>))) =
   Inr (Some [\<lparr>productId = 1, name = ''A'', price = 10, quantity = QNull\<rparr>])"
  by (simp add: load_cart_def hydrate_def saveCart_def setItem_def JSON_stringify_def cart_json_def
      line_json_def first_visit_def)

section \<open>Checkout\<close>

text \<open>
  C7. On a checkout whose form is valid: when the order-creation call succeeds, the cart
  is empty afterwards and the store holds the empty cart under \<^verbatim>\<open>'cart'\<close>; when it fails,
  the cart and the whole store are as before, and the only effect is the notification
  of the failure's message (so nothing is written to the store).
\<close>

theorem checkout_outcomes:
  "(case createOrder \<lparr>items = cart w, shipping = data, total = getCartTotal w\<rparr> of
      Inr orderResult \<Rightarrow>
        cart (checkout_submit True createOrder data w) = []
        \<and> localStorage (checkout_submit True createOrder data w) ''cart'' = Some (JSONText (JArray []))
        \<and> effects (checkout_submit True createOrder data w) =
            effects w @ [SetItem ''lastOrder'' (JSONText orderResult),
                         SetItem ''cart'' (JSONText (JArray [])),
                         Redirect ''order_successful.html'',
                         ShowNotification ''Form submitted successfully!'' ''success'']
    | Inl e \<Rightarrow>
        handleFormSubmission_checkout createOrder data w = Inl e
        \<and> cart (checkout_submit True createOrder data w) = cart w
        \<and> localStorage (checkout_submit True createOrder data w) = localStorage w
        \<and> effects (checkout_submit True createOrder data w) =
            effects w @ [ShowNotification (message e) ''error''])"
  by (simp add: checkout_submit_def handleFormSubmission_checkout_def world_ops redirect_def
      cart_json_def split: sum.split)

theorem checkout_outcomes_witness:
  "cart (checkout_submit True (\<lambda>order. Inr (JObject [(''orderId'', JNumber 17)])) [] two_lines) = []
   \<and> localStorage (checkout_submit True (\<lambda>order. Inr (JObject [(''orderId'', JNumber 17)])) [] two_lines)
       ''cart'' = Some (JSONText (JArray []))
   \<and> cart (checkout_submit True (\<lambda>order. Inl (Error ''API request failed'')) [] two_lines) =
       cart two_lines
   \<and> localStorage (checkout_submit True (\<lambda>order. Inl (Error ''API request failed'')) [] two_lines) =
       localStorage two_lines
   \<and> effects (checkout_submit True (\<lambda>order. Inl (Error ''API request failed'')) [] two_lines) =
       effects two_lines @ [ShowNotification ''API request failed'' ''error'']"
  using checkout_outcomes [where createOrder = "\<lambda>order. Inr (JObject [(''orderId'', JNumber 17)])"
      and w = two_lines and data = "[]"]
    checkout_outcomes [where createOrder = "\<lambda>order. Inl (Error ''API request failed'')"
      and w = two_lines and data = "[]"]
  by simp

section \<open>Uniqueness of the ids\<close>

lemma qty_of_json_inverse: "qty_of_json j = Some q \<Longrightarrow> qty_json q = j"
  by (cases j) (auto split: if_splits)

lemma line_of_json_inverse:
  assumes "line_of_json j = Some l"
  shows "line_json l = j"
  using assms
proof (cases j rule: line_of_json.cases)
  case (1 k1 i k2 n k3 p k4 q)
  with assms obtain q' where q': "qty_of_json q = Some q'"
    and l: "l = \<lparr>productId = \<lfloor>i\<rfloor>, name = n, price = p, quantity = q'\<rparr>"
    and k: "k1 = ''id''" "k2 = ''name''" "k3 = ''price''" "k4 = ''quantity''" "i = of_int \<lfloor>i\<rfloor>"
    by (auto split: if_splits)
  from q' have "qty_json q' = q" by (rule qty_of_json_inverse)
  with 1 l k show ?thesis by (simp add: line_json_def)
qed simp_all


lemma those_map_inverse:
  assumes "those (map f js) = Some c" and "\<And>j l. f j = Some l \<Longrightarrow> g l = j"
  shows "map g c = js"
  using assms(1)
proof (induction js arbitrary: c)
  case Nil
  then show ?case by simp
next
  case (Cons j js)
  then obtain l c' where "f j = Some l" "those (map f js) = Some c'" "c = l # c'"
    by (auto split: option.splits)
  with Cons.IH [of c'] assms(2) [of j l] show ?case by simp
qed

lemma cart_of_json_inverse:
  assumes "cart_of_json j = Some c"
  shows "cart_json c = j"
proof (cases j)
  case (JArray js)
  with assms have "those (map line_of_json js) = Some c" by simp
  then have "map line_json c = js"
    by (rule those_map_inverse) (rule line_of_json_inverse)
  with JArray show ?thesis by (simp add: cart_json_def)
qed (use assms in simp_all)

lemma line_json_productId: "line_json l = line_json l' \<Longrightarrow> productId l = productId l'"
  by (simp add: line_json_def)

lemma cart_json_productIds:
  assumes "cart_json c = cart_json c'"
  shows "map productId c = map productId c'"
proof -
  from assms have "map line_json c = map line_json c'" by (simp add: cart_json_def)
  then show ?thesis
  proof (induction c arbitrary: c')
    case Nil
    then show ?case by simp
  next
    case (Cons l c)
    then obtain l' d where "c' = l' # d" "line_json l = line_json l'" "map line_json c = map line_json d"
      by (cases c') auto
    with Cons.IH [of d] line_json_productId [of l l'] show ?case by simp
  qed
qed


lemma stored_after_save:
  "localStorage (saveCart w) ''cart'' = Some (JSONText (cart_json (cart w)))"
  by (simp add: saveCart_def setItem_def JSON_stringify_def)

lemma localStorage_updateCartUI [simp]: "localStorage (updateCartUI w) = localStorage w"
  by (simp add: updateCartUI_def)

lemma localStorage_showNotification [simp]: "localStorage (showNotification m t w) = localStorage w"
  by (simp add: showNotification_def)

lemma cart_inv_saved:
  "distinct (map productId c) \<Longrightarrow>
   cart_inv (showNotification m t (updateCartUI (saveCart (w\<lparr>cart := c\<rparr>))))"
  "distinct (map productId c) \<Longrightarrow> cart_inv (updateCartUI (saveCart (w\<lparr>cart := c\<rparr>)))"
  by (simp_all add: cart_inv_def stored_after_save)

lemma cart_inv_addToCart:
  assumes "cart_inv w"
  shows "cart_inv (addToCart p w)"
proof (cases "find (\<lambda>item. productId item = productId p) (cart w)")
  case None
  then have "productId p \<notin> productId ` set (cart w)"
    by (simp add: find_None_iff_ids del: find_None_iff)
  with assms have "distinct (map productId (cart w @ [new_line p]))"
    by (simp add: cart_inv_def new_line_def)
  with None show ?thesis
    by (simp add: addToCart_def cart_inv_saved del: find_None_iff)
next
  case (Some x)
  have "map productId (modify_first (\<lambda>item. productId item = productId p)
          (\<lambda>item. item\<lparr>quantity := qty_plus (quantity item) (Qty 1)\<rparr>) (cart w)) =
        map productId (cart w)"
    by (rule map_modify_first_keeps) simp
  with assms have "distinct (map productId (modify_first (\<lambda>item. productId item = productId p)
          (\<lambda>item. item\<lparr>quantity := qty_plus (quantity item) (Qty 1)\<rparr>) (cart w)))"
    by (simp add: cart_inv_def)
  with Some show ?thesis
    by (simp add: addToCart_def cart_inv_saved)
qed

lemma cart_inv_removeFromCart:
  assumes "cart_inv w"
  shows "cart_inv (removeFromCart pid w)"
proof -
  from assms have "distinct (map productId (filter (\<lambda>item. productId item \<noteq> pid) (cart w)))"
    by (simp add: cart_inv_def distinct_map_filter)
  then show ?thesis
    by (simp add: removeFromCart_def cart_inv_saved)
qed

lemma cart_inv_updateQuantity:
  assumes "cart_inv w"
  shows "cart_inv (updateQuantity pid q w)"
proof (cases "find (\<lambda>item. productId item = pid) (cart w)")
  case None
  with assms show ?thesis by (simp add: updateQuantity_def)
next
  case (Some x)
  have "map productId (modify_first (\<lambda>item. productId item = pid)
          (\<lambda>item. item\<lparr>quantity := Math_max (Qty 1) q\<rparr>) (cart w)) = map productId (cart w)"
    by (rule map_modify_first_keeps) simp
  with assms have "distinct (map productId (modify_first (\<lambda>item. productId item = pid)
          (\<lambda>item. item\<lparr>quantity := Math_max (Qty 1) q\<rparr>) (cart w)))"
    by (simp add: cart_inv_def)
  with Some show ?thesis
    by (simp add: updateQuantity_def cart_inv_saved)
qed

lemma cart_inv_reload:
  assumes "cart_inv w" "load_cart (localStorage w) = Inr (Some c)"
  shows "cart_inv (w\<lparr>cart := c, effects := []\<rparr>)"
proof (cases "localStorage w ''cart''")
  case None
  with assms(2) have "c = []" by (simp add: load_cart_def hydrate_def)
  with None show ?thesis by (simp add: cart_inv_def)
next
  case (Some s)
  with assms(1) have s: "localStorage w ''cart'' = Some (JSONText (cart_json (cart w)))"
    by (auto simp: cart_inv_def)
  with assms(2) have "cart_of_json (cart_json (cart w)) = Some c"
    by (simp add: load_cart_def hydrate_def cart_json_def)
  then have eq: "cart_json c = cart_json (cart w)" by (rule cart_of_json_inverse)
  then have "map productId c = map productId (cart w)" by (rule cart_json_productIds)
  with assms(1) s eq show ?thesis by (simp add: cart_inv_def)
qed

lemma reachable_cart_inv: "reachable w \<Longrightarrow> cart_inv w"
proof (induction rule: reachable.induct)
  case (first w) then show ?case by (simp add: cart_inv_def)
next
  case (add w p) then show ?case by (simp add: cart_inv_addToCart)
next
  case (remove w pid) then show ?case by (simp add: cart_inv_removeFromCart)
next
  case (update w pid q) then show ?case by (simp add: cart_inv_updateQuantity)
next
  case (reload w c) then show ?case by (simp add: cart_inv_reload)
qed

text \<open>
  C5. In every state reached from a first visit (empty cart, nothing stored) by
  \<^verbatim>\<open>addToCart\<close>, \<^verbatim>\<open>removeFromCart\<close>, \<^verbatim>\<open>updateQuantity\<close> and page reloads (hydration
  of the cart the previous page saved), no two lines of the cart have the same id.
\<close>

theorem reachable_distinct_ids: "reachable w \<Longrightarrow> distinct (map productId (cart w))"
  using reachable_cart_inv [of w] by (simp add: cart_inv_def)

theorem reachable_distinct_ids_witness:
  "reachable (addToCart headphones (two_lines\<lparr>cart := cart two_lines, effects := []\<rparr>))
   \<and> distinct (map productId
         (cart (addToCart headphones (two_lines\<lparr>cart := cart two_lines, effects := []\<rparr>))))"
proof -
  have "reachable first_visit"
    by (rule reachable.first) (simp_all add: first_visit_def)
  then have r: "reachable two_lines"
    unfolding two_lines_def by (intro reachable.add)
  have ok: "cart_ok (cart two_lines)"
    by (simp add: two_lines_cart cart_ok_def line_ok_def literal_def binary64_def
        round_half_even_def Let_def zero_le_mult_iff)
  have "localStorage two_lines ''cart'' = Some (JSONText (cart_json (cart two_lines)))"
    unfolding two_lines_def by (simp add: addToCart_def Let_def stored_after_save split: option.split)
  then have "load_cart (localStorage two_lines) = Inr (Some (cart two_lines))"
    using cart_roundtrip [OF ok] by (simp add: load_cart_def hydrate_def cart_json_def)
  with r have "reachable (two_lines\<lparr>cart := cart two_lines, effects := []\<rparr>)"
    by (rule reachable.reload)
  then have "reachable (addToCart headphones (two_lines\<lparr>cart := cart two_lines, effects := []\<rparr>))"
    by (rule reachable.add)
  with reachable_distinct_ids [OF this] show ?thesis by simp
qed

section \<open>The cart total\<close>

subsection \<open>Sums that do not round\<close>

lemma dyadic_iff: "dyadic k r \<longleftrightarrow> (\<exists>n. r * 2 ^ k = of_int n)"
  unfolding dyadic_def by (metis floor_of_int)

lemma dyadic_add: "dyadic k a \<Longrightarrow> dyadic k b \<Longrightarrow> dyadic k (a + b)"
  unfolding dyadic_iff by (metis distrib_right of_int_add)

lemma dyadic_mult_int: "dyadic k a \<Longrightarrow> dyadic k (a * of_int q)"
  unfolding dyadic_iff by (metis mult.assoc mult.commute of_int_mult)

lemma dyadic_binary64:
  assumes "dyadic k r" "\<bar>r\<bar> * 2 ^ k \<le> 2 ^ 53"
  shows "binary64 r = r"
proof -
  from assms(1) obtain n where n: "r * 2 ^ k = of_int n" unfolding dyadic_iff ..
  then have r: "r = of_int n / 2 ^ k" by (simp add: field_simps)
  have "(of_int \<bar>n\<bar> :: rat) = \<bar>of_int n\<bar>" by simp
  also have "\<dots> = \<bar>r * 2 ^ k\<bar>" by (simp only: n)
  also have "\<dots> = \<bar>r\<bar> * 2 ^ k" by (simp add: abs_mult)
  also have "\<dots> \<le> of_int (2 ^ 53)" using assms(2) by simp
  finally have "\<bar>n\<bar> \<le> 2 ^ 53" by (simp only: of_int_le_iff)
  then show ?thesis unfolding r by (rule dyadic_representable)
qed

lemma line_ok_amount:
  assumes "line_ok l"
  obtains q where "quantity l = Qty q" "0 < q" "0 \<le> price l" "line_amount l = price l * of_int q"
  using assms by (auto simp: line_ok_def line_amount_def split: qty.splits)

lemma line_amount_nonneg: "line_ok l \<Longrightarrow> 0 \<le> line_amount l"
  by (erule line_ok_amount) simp

lemma exact_total_nonneg: "cart_ok c \<Longrightarrow> 0 \<le> exact_total c"
  by (induction c) (simp_all add: cart_ok_def exact_total_def line_amount_nonneg)

lemma foldl_exact:
  assumes "cart_ok c" "list_all (\<lambda>l. dyadic k (price l)) c" "dyadic k acc" "0 \<le> acc"
    and "(acc + exact_total c) * 2 ^ k \<le> 2 ^ 53"
  shows "foldl (\<lambda>total item. num_add total (num_mul (Num (price item)) (ToNumber (quantity item))))
           (Num acc) c = Num (acc + exact_total c)"
  using assms
proof (induction c arbitrary: acc)
  case Nil
  then show ?case by (simp add: exact_total_def)
next
  case (Cons l c)
  from Cons.prems(1) have ok: "line_ok l" "cart_ok c" by (simp_all add: cart_ok_def)
  from Cons.prems(2) have dy: "dyadic k (price l)" "list_all (\<lambda>l. dyadic k (price l)) c" by simp_all
  from ok(1) obtain q where q: "quantity l = Qty q" "0 < q" "0 \<le> price l"
      "line_amount l = price l * of_int q"
    by (rule line_ok_amount)
  have rest: "0 \<le> exact_total c" using ok(2) by (rule exact_total_nonneg)
  have amt: "0 \<le> line_amount l" using ok(1) by (rule line_amount_nonneg)
  have total: "exact_total (l # c) = line_amount l + exact_total c"
    by (simp add: exact_total_def)
  have bound: "(acc + line_amount l + exact_total c) * 2 ^ k \<le> 2 ^ 53"
    using Cons.prems(5) by (simp add: total add.assoc)
  have "line_amount l * 2 ^ k \<le> (acc + line_amount l + exact_total c) * 2 ^ k"
    by (intro mult_right_mono) (use Cons.prems(4) rest in simp_all)
  then have "line_amount l * 2 ^ k \<le> 2 ^ 53" using bound by (rule order_trans)
  with amt have "\<bar>line_amount l\<bar> * 2 ^ k \<le> 2 ^ 53" by (simp only: abs_of_nonneg)
  moreover have "dyadic k (line_amount l)" unfolding q(4) using dy(1) by (rule dyadic_mult_int)
  ultimately have r1: "binary64 (line_amount l) = line_amount l" by (rule dyadic_binary64 [rotated])
  have acc': "0 \<le> acc + line_amount l" using Cons.prems(4) amt by simp
  have "(acc + line_amount l) * 2 ^ k \<le> (acc + line_amount l + exact_total c) * 2 ^ k"
    by (intro mult_right_mono) (use rest in simp_all)
  then have "(acc + line_amount l) * 2 ^ k \<le> 2 ^ 53" using bound by (rule order_trans)
  with acc' have "\<bar>acc + line_amount l\<bar> * 2 ^ k \<le> 2 ^ 53" by (simp only: abs_of_nonneg)
  moreover have dacc: "dyadic k (acc + line_amount l)"
    using Cons.prems(3) \<open>dyadic k (line_amount l)\<close> by (rule dyadic_add)
  ultimately have r2: "binary64 (acc + line_amount l) = acc + line_amount l"
    by (rule dyadic_binary64 [rotated])
  have step: "num_add (Num acc) (num_mul (Num (price l)) (ToNumber (quantity l))) =
          Num (acc + line_amount l)"
    using r1 r2 by (simp add: q)
  have "foldl (\<lambda>total item. num_add total (num_mul (Num (price item)) (ToNumber (quantity item))))
           (Num (acc + line_amount l)) c = Num (acc + line_amount l + exact_total c)"
    using ok(2) dy(2) dacc _ bound
    by (rule Cons.IH) (rule acc')
  then show ?case by (simp add: step total add.assoc)
qed

lemma exact_total_mset: "mset c' = mset c \<Longrightarrow> exact_total c' = exact_total c"
  unfolding exact_total_def by (metis mset_map sum_mset_sum_list)

lemma cart_a_lines:
  "cart cart_a =
     [\<lparr>productId = 1, name = ''Wireless Headphones'', price = literal 9999 2, quantity = Qty 1\<rparr>,
      \<lparr>productId = 4, name = ''USB-C Hub'', price = literal 7999 2, quantity = Qty 1\<rparr>,
      \<lparr>productId = 3, name = ''Laptop Stand'', price = literal 4999 2, quantity = Qty 1\<rparr>]"
  by (simp add: cart_a_def addToCart_def catalog)

lemma cart_b_lines:
  "cart cart_b =
     [\<lparr>productId = 3, name = ''Laptop Stand'', price = literal 4999 2, quantity = Qty 1\<rparr>,
      \<lparr>productId = 4, name = ''USB-C Hub'', price = literal 7999 2, quantity = Qty 1\<rparr>,
      \<lparr>productId = 1, name = ''Wireless Headphones'', price = literal 9999 2, quantity = Qty 1\<rparr>]"
  by (simp add: cart_b_def addToCart_def catalog)

text \<open>The sums \<^verbatim>\<open>0 + 99.99 + 79.99 + 49.99\<close> and \<^verbatim>\<open>0 + 49.99 + 79.99 + 99.99\<close> in binary64.\<close>

lemma sum_a:
  "num_add (num_add (num_add (Num 0) (num_mul (Num (literal 9999 2)) (Num 1)))
      (num_mul (Num (literal 7999 2)) (Num 1))) (num_mul (Num (literal 4999 2)) (Num 1)) =
   Num (8091350049268695 / 35184372088832)"
  by code_simp

lemma sum_b:
  "num_add (num_add (num_add (Num 0) (num_mul (Num (literal 4999 2)) (Num 1)))
      (num_mul (Num (literal 7999 2)) (Num 1))) (num_mul (Num (literal 9999 2)) (Num 1)) =
   Num (4045675024634347 / 17592186044416)"
  by code_simp

text \<open>
  C6, as amended. \<^verbatim>\<open>getCartTotal\<close> is a function of the cart alone and changes
  nothing. It adds \<open>unitPrice \<times> quantity\<close> line by line, from 0 and in cart order, in
  binary64. When no rounding can occur, it is the exact sum and the order of the lines
  does not matter: that is so when the cart is within the data-model invariants, every
  price is a multiple of \<open>1 / 2^k\<close>, and the exact sum times \<open>2^k\<close> is at most \<open>2^53\<close>.
\<close>

theorem getCartTotal_exact:
  assumes "cart_ok (cart w)" and "list_all (\<lambda>l. dyadic k (price l)) (cart w)"
    and "exact_total (cart w) * 2 ^ k \<le> 2 ^ 53" and "mset (cart w') = mset (cart w)"
  shows "getCartTotal w = Num (exact_total (cart w)) \<and> getCartTotal w' = getCartTotal w"
proof -
  have z: "dyadic k 0" by (simp add: dyadic_def)
  have a: "getCartTotal w = Num (exact_total (cart w))"
    unfolding getCartTotal_def
    using foldl_exact [OF assms(1,2) z] assms(3) by simp
  have s: "set (cart w') = set (cart w)" using assms(4) by (rule mset_eq_setD)
  have "cart_ok (cart w')" "list_all (\<lambda>l. dyadic k (price l)) (cart w')"
    using assms(1,2) by (simp_all add: cart_ok_def list_all_iff s)
  moreover have e: "exact_total (cart w') = exact_total (cart w)"
    using assms(4) by (rule exact_total_mset)
  ultimately have "getCartTotal w' = Num (exact_total (cart w'))"
    unfolding getCartTotal_def
    using foldl_exact [OF _ _ z, of "cart w'"] assms(3) by simp
  with a e show ?thesis by simp
qed

theorem getCartTotal_exact_witness:
  "cart_ok (cart halves_a) \<and> list_all (\<lambda>l. dyadic 1 (price l)) (cart halves_a)
   \<and> exact_total (cart halves_a) * 2 ^ 1 \<le> 2 ^ 53
   \<and> mset (cart halves_b) = mset (cart halves_a)
   \<and> getCartTotal halves_a = Num 35 \<and> getCartTotal halves_b = getCartTotal halves_a"
proof -
  have h1: "cart_ok (cart halves_a)"
    by (simp add: halves_a_def cart_ok_def line_ok_def)
  have h2: "list_all (\<lambda>l. dyadic 1 (price l)) (cart halves_a)"
    by (simp add: halves_a_def dyadic_def)
  have e: "exact_total (cart halves_a) = 35"
    by (simp add: halves_a_def exact_total_def line_amount_def)
  have h3: "exact_total (cart halves_a) * 2 ^ 1 \<le> 2 ^ 53"
    by (simp add: e)
  have h4: "mset (cart halves_b) = mset (cart halves_a)"
    by (simp add: halves_a_def halves_b_def add.commute)
  from getCartTotal_exact [OF h1 h2 h3 h4] h1 h2 h3 h4 e show ?thesis by simp
qed

text \<open>
  C6 as stated fails: the catalog's headphones, hub and stand, one of each, total
  \<^verbatim>\<open>229.97\<close> in one order and \<^verbatim>\<open>229.96999999999997\<close> in the other.
\<close>

theorem getCartTotal_permutation_counterexample:
  "mset (cart cart_a) = mset (cart cart_b)
   \<and> getCartTotal cart_a = Num (8091350049268695 / 35184372088832)
   \<and> getCartTotal cart_b = Num (4045675024634347 / 17592186044416)
   \<and> getCartTotal cart_a \<noteq> getCartTotal cart_b"
proof -
  have a: "getCartTotal cart_a = Num (8091350049268695 / 35184372088832)"
    using sum_a by (simp add: getCartTotal_def cart_a_lines)
  have b: "getCartTotal cart_b = Num (4045675024634347 / 17592186044416)"
    using sum_b by (simp add: getCartTotal_def cart_b_lines)
  have "mset (cart cart_a) = mset (cart cart_b)"
    by (simp add: cart_a_lines cart_b_lines add.commute add.left_commute)
  with a b show ?thesis by simp
qed

end
